theory Spec2Isabelle
  imports Main
begin

section \<open>The user account controller of the fashion store server\<close>

text \<open>
  A shallow embedding of \<^verbatim>\<open>src/server/controllers/user.account.controller.js\<close>:
  the three request handlers \<^verbatim>\<open>createUser\<close>, \<^verbatim>\<open>loginUser\<close> and
  \<^verbatim>\<open>isTokenOk\<close>, and the two helpers \<^verbatim>\<open>validateClientToken\<close> and
  \<^verbatim>\<open>isUserExist\<close>.

  The handlers are asynchronous JavaScript; each one is a single linear transaction, so an
  \<^verbatim>\<open>await\<close> is modelled as the value awaited. The database and the console are the
  state, passed in and returned. A thrown \<^verbatim>\<open>Error\<close> (a rejected promise) is the left
  summand of a result.
\<close>

subsection \<open>JavaScript values\<close>

text \<open>
  The values that are put into a response body: \<^verbatim>\<open>undefined\<close>, strings, numbers,
  booleans and objects (a list of own properties, in insertion order).
\<close>

datatype jsval =
    JUndefined
  | JStr string
  | JNum int
  | JBool bool
  | JObj "(string \<times> jsval) list"

text \<open>Whether an object anywhere inside a value has a property named \<open>k\<close>.\<close>

fun has_field :: "string \<Rightarrow> jsval \<Rightarrow> bool" where
  "has_field k (JObj kvs) = (\<exists>(k', v) \<in> set kvs. k' = k \<or> has_field k v)"
| "has_field k _ = False"

text \<open>
  The object rest pattern \<^verbatim>\<open>const { password: pass, ...rest } = obj\<close>: \<open>rest\<close> holds
  every own property of \<open>obj\<close> but the one named, in the same order.
\<close>

definition rest_without :: "string \<Rightarrow> (string \<times> jsval) list \<Rightarrow> (string \<times> jsval) list" where
  "rest_without k obj = filter (\<lambda>(k', v). k' \<noteq> k) obj"

datatype error = Error string | CastError string

subsection \<open>The user store\<close>

text \<open>
  Modelled from the spec: \<^verbatim>\<open>../models/user.account.model.js\<close> is not part of the source.
  The spec's data model gives a UserAccount a name, an email and a (hashed) password, all
  strings, and the store a lookup by email and a lookup by identifier. \<open>doc_id\<close> is the
  document's \<^verbatim>\<open>_id\<close>.
\<close>

record UserAccount =
  doc_id :: string
  doc_name :: string
  doc_email :: string
  doc_password :: string

text \<open>\<^verbatim>\<open>validUser._doc\<close>, the plain object behind a document.\<close>

definition doc_of :: "UserAccount \<Rightarrow> (string \<times> jsval) list" where
  "doc_of u =
     [(''_id'', JStr (doc_id u)),
      (''name'', JStr (doc_name u)),
      (''email'', JStr (doc_email u)),
      (''password'', JStr (doc_password u))]"

text \<open>
  The state a call runs in: the persisted accounts, in insertion order, and what has been
  written to the console (one entry per \<^verbatim>\<open>console.log\<close>; \<open>None\<close> is \<^verbatim>\<open>undefined\<close>).
\<close>

record sys =
  users :: "UserAccount list"
  console :: "string option list"

subsection \<open>The collaborators\<close>

text \<open>
  The libraries (bcryptjs, jsonwebtoken, the store's driver), the validation module and the
  process environment are not part of the source; they are parameters of the model. Each is
  taken to return: a failure of the infrastructure (database down, secret not configured for
  signing) is not handled by the source and is outside the model. A failed verification is
  the result \<open>False\<close> of \<open>jwt_verify\<close>.

  \<^item> \<open>JWT_SECRET\<close> is \<^verbatim>\<open>process.env.JWT_SECRET\<close>;
  \<^item> \<open>newAccountValidation\<close> returns \<^verbatim>\<open>true\<close> or an error string;
  \<^item> \<open>bcrypt_hash s rounds\<close> is \<^verbatim>\<open>bcryptjs.hash(s, rounds)\<close> and
    \<open>bcrypt_compareSync s hash\<close> is \<^verbatim>\<open>bcryptjs.compareSync(s, hash)\<close>;
  \<^item> \<open>jwt_sign payload secret options\<close> is \<^verbatim>\<open>jwt.sign(payload, secret, options)\<close>;
  \<^item> \<open>jwt_verify token secret\<close> tells whether \<^verbatim>\<open>jwt.verify(token, secret)\<close> accepts;
  \<^item> \<open>new_id\<close> is the identifier the store gives the next document;
  \<^item> \<open>valid_id\<close> tells whether a string is a well-formed identifier.
\<close>

datatype validation = VTrue | VMessage string

record sign_options =
  expiresIn :: string

record collab =
  JWT_SECRET :: string
  newAccountValidation :: "string \<Rightarrow> string \<Rightarrow> string \<Rightarrow> validation"
  bcrypt_hash :: "string \<Rightarrow> nat \<Rightarrow> string"
  bcrypt_compareSync :: "string \<Rightarrow> string \<Rightarrow> bool"
  jwt_sign :: "(string \<times> jsval) list \<Rightarrow> string \<Rightarrow> sign_options \<Rightarrow> string"
  jwt_verify :: "string \<Rightarrow> string \<Rightarrow> bool"
  new_id :: "UserAccount list \<Rightarrow> string"
  valid_id :: "string \<Rightarrow> bool"

text \<open>
  Modelled from the spec: the store's queries (the model module is not part of the source).
  \<^verbatim>\<open>UserAccount.findOne({ email })\<close> is the first account with that email, or nothing;
  \<^verbatim>\<open>UserAccount.findById(id)\<close> is the account with that identifier, or nothing, and
  fails on a malformed identifier; \<^verbatim>\<open>new UserAccount({...}).save()\<close> appends one account.
\<close>

definition findOne :: "UserAccount list \<Rightarrow> string \<Rightarrow> UserAccount option" where
  "findOne us e = find (\<lambda>u. doc_email u = e) us"

definition findById :: "collab \<Rightarrow> UserAccount list \<Rightarrow> string \<Rightarrow> error + UserAccount option" where
  "findById env us i =
     (if valid_id env i then Inr (find (\<lambda>u. doc_id u = i) us)
      else Inl (CastError i))"

definition save :: "collab \<Rightarrow> string \<Rightarrow> string \<Rightarrow> string \<Rightarrow> sys \<Rightarrow> sys" where
  "save env n e p s =
     s\<lparr>users := users s @
          [\<lparr>doc_id = new_id env (users s), doc_name = n, doc_email = e, doc_password = p\<rparr>]\<rparr>"

subsection \<open>The response\<close>

text \<open>
  The response object of the web framework, as far as the handlers drive it:
  \<^verbatim>\<open>res.status(n)\<close>, \<^verbatim>\<open>res.cookie(name, value, options)\<close> and \<^verbatim>\<open>res.json(body)\<close>.
  \<open>sent\<close> is the body sent, if one has been.
\<close>

record envelope =
  success :: bool
  status :: nat
  data :: jsval

record cookie_options =
  httpOnly :: bool

record response =
  statusCode :: nat
  set_cookies :: "(string \<times> string \<times> cookie_options) list"
  sent :: "envelope option"

definition fresh_response :: response where
  "fresh_response = \<lparr>statusCode = 200, set_cookies = [], sent = None\<rparr>"

definition res_status :: "response \<Rightarrow> nat \<Rightarrow> response" where
  "res_status res n = res\<lparr>statusCode := n\<rparr>"

definition res_cookie :: "response \<Rightarrow> string \<Rightarrow> string \<Rightarrow> cookie_options \<Rightarrow> response" where
  "res_cookie res name v opts = res\<lparr>set_cookies := set_cookies res @ [(name, v, opts)]\<rparr>"

definition res_json :: "response \<Rightarrow> envelope \<Rightarrow> response" where
  "res_json res body = res\<lparr>sent := Some body\<rparr>"

text \<open>
  Modelled from the spec: \<^verbatim>\<open>./response.controller.js\<close> is not part of the source. The
  spec gives the envelope \<^verbatim>\<open>{ success, status, data_or_message }\<close> and the status of each
  outcome: 200 for success, 400 for a bad request, 403 for a forbidden one, 404 for not
  found. The source calls \<^verbatim>\<open>serverResponse(success, status, payload)\<close> itself on two lines,
  which fixes its arguments.
\<close>

definition serverResponse :: "bool \<Rightarrow> nat \<Rightarrow> jsval \<Rightarrow> envelope" where
  "serverResponse ok code payload = \<lparr>success = ok, status = code, data = payload\<rparr>"

definition serverOk :: "response \<Rightarrow> jsval \<Rightarrow> response" where
  "serverOk res payload = res_json (res_status res 200) (serverResponse True 200 payload)"

definition serverBadRequest :: "response \<Rightarrow> jsval \<Rightarrow> response" where
  "serverBadRequest res msg = res_json (res_status res 400) (serverResponse False 400 msg)"

definition serverForbidden :: "response \<Rightarrow> jsval \<Rightarrow> response" where
  "serverForbidden res msg = res_json (res_status res 403) (serverResponse False 403 msg)"

definition serverNotFound :: "response \<Rightarrow> jsval \<Rightarrow> response" where
  "serverNotFound res msg = res_json (res_status res 404) (serverResponse False 404 msg)"

text \<open>
  Modelled from the spec: \<^verbatim>\<open>./server.process.controller.js\<close> is not part of the source.
  The spec has it run the handler's body and hand an unexpected exception to an outer
  responder; no body of the model throws, so it runs the body.
\<close>

definition serverProcess :: "response \<Rightarrow> 'a \<Rightarrow> string \<Rightarrow> 'a" where
  "serverProcess res run label = run"

subsection \<open>The handlers\<close>

text \<open>
  \<^verbatim>\<open>createUser\<close>, on a request body whose \<^verbatim>\<open>name\<close>, \<^verbatim>\<open>email\<close> and \<^verbatim>\<open>password\<close>
  are strings, the input the spec gives Register (what an absent field does once the
  validation has let it through is decided by the model module, which is not at hand).
\<close>

record register_body =
  body_name :: string
  body_email :: string
  body_password :: string

definition createUser :: "collab \<Rightarrow> register_body \<Rightarrow> response \<Rightarrow> sys \<Rightarrow> response \<times> sys" where
  "createUser env body res s =
     serverProcess res
       (let name = body_name body; email = body_email body; password = body_password body in
        case newAccountValidation env name email password of
          VMessage msg \<Rightarrow> (serverBadRequest res (JStr msg), s)
        | VTrue \<Rightarrow>
            (case findOne (users s) email of
               Some existingUser \<Rightarrow> (serverBadRequest res (JStr ''Email already exists''), s)
             | None \<Rightarrow>
                 (let hashPassword = bcrypt_hash env password 10;
                      s' = save env name email hashPassword s
                  in (serverOk res JUndefined, s'))))
       ''create user''"

text \<open>
  \<^verbatim>\<open>loginUser\<close>. A field of the body is absent (\<open>None\<close>) or a string; \<^verbatim>\<open>!email\<close> holds
  of an absent field and of the empty string. Past that guard both fields are strings: the
  last case of the distinction below is there for totality and is never taken.
\<close>

record login_body =
  login_email :: "string option"
  login_password :: "string option"

definition falsy :: "string option \<Rightarrow> bool" where
  "falsy v = (case v of None \<Rightarrow> True | Some x \<Rightarrow> x = [])"

definition loginUser :: "collab \<Rightarrow> login_body \<Rightarrow> response \<Rightarrow> sys \<Rightarrow> response \<times> sys" where
  "loginUser env body res s =
     serverProcess res
       (if falsy (login_email body) \<or> falsy (login_password body)
        then (serverBadRequest res (JStr ''Email and password are required''), s)
        else
          (case (login_email body, login_password body) of
             (Some email, Some password) \<Rightarrow>
               (case findOne (users s) email of
                  None \<Rightarrow> (serverNotFound res (JStr ''User not found''), s)
                | Some validUser \<Rightarrow>
                    if \<not> bcrypt_compareSync env password (doc_password validUser)
                    then (res_json (res_status res 401)
                            (serverResponse False 401 (JStr ''Incorrect password'')), s)
                    else
                      (let token = jwt_sign env [(''email'', JStr (doc_email validUser))]
                                     (JWT_SECRET env) \<lparr>expiresIn = ''1h''\<rparr>;
                           rest = rest_without ''password'' (doc_of validUser)
                       in (res_json
                             (res_cookie (res_status res 200) ''access_token'' token
                                \<lparr>httpOnly = True\<rparr>)
                             (serverResponse True 200 (JObj [(''user'', JObj rest)])), s)))
           | _ \<Rightarrow> (serverBadRequest res (JStr ''Email and password are required''), s)))
       ''login user''"

text \<open>
  \<^verbatim>\<open>isTokenOk\<close>. The argument is the request's cookies; \<^verbatim>\<open>req.cookies.access_token\<close>
  is the value of the first cookie of that name, if there is one. The callback given to
  \<^verbatim>\<open>jwt.verify\<close> is run with an error exactly when the verification fails. As in
  \<open>loginUser\<close>, the case of an absent token past the guard is never taken.
\<close>

definition isTokenOk :: "collab \<Rightarrow> (string \<times> string) list \<Rightarrow> response \<Rightarrow> sys \<Rightarrow> response \<times> sys" where
  "isTokenOk env cookies res s =
     serverProcess res
       (let token = map_of cookies ''access_token'' in
        if falsy token then (serverBadRequest res (JStr ''Empty token!''), s)
        else
          (case token of
             Some t \<Rightarrow>
               if \<not> jwt_verify env t (JWT_SECRET env)
               then (serverForbidden res (JStr ''Invalid or expired token''), s)
               else (serverOk res (JStr ''Token accepted''), s)
           | None \<Rightarrow> (serverBadRequest res (JStr ''Empty token!''), s)))
       ''is token ok''"

subsection \<open>The helpers\<close>

text \<open>
  \<^verbatim>\<open>validateClientToken\<close>: the token is logged first; then an absent or empty token
  throws, and any other token is verified, an exception of the verification being caught
  and turned into \<^verbatim>\<open>false\<close>.
\<close>

definition validateClientToken :: "collab \<Rightarrow> string option \<Rightarrow> sys \<Rightarrow> (error + bool) \<times> sys" where
  "validateClientToken env token s =
     (let s' = s\<lparr>console := console s @ [token]\<rparr> in
      if falsy token then (Inl (Error ''Empty Token''), s')
      else
        (case token of
           Some t \<Rightarrow> if jwt_verify env t (JWT_SECRET env) then (Inr True, s') else (Inr False, s')
         | None \<Rightarrow> (Inl (Error ''Empty Token''), s')))"

definition isUserExist :: "collab \<Rightarrow> string \<Rightarrow> sys \<Rightarrow> (error + UserAccount option) \<times> sys" where
  "isUserExist env user_id s = (let user = findById env (users s) user_id in (user, s))"

subsection \<open>What a response shows\<close>

text \<open>Whether the body sent has a property named \<^verbatim>\<open>password\<close> anywhere in its payload.\<close>

definition body_has_password :: "response \<Rightarrow> bool" where
  "body_has_password res =
     (case sent res of None \<Rightarrow> False | Some b \<Rightarrow> has_field ''password'' (data b))"

text \<open>Whether the body sent carries a message string or nothing, and so no object.\<close>

definition message_only :: "response \<Rightarrow> bool" where
  "message_only res =
     (case sent res of
        None \<Rightarrow> False
      | Some b \<Rightarrow> (case data b of JStr m \<Rightarrow> True | JUndefined \<Rightarrow> True | _ \<Rightarrow> False))"

subsection \<open>A concrete instance\<close>

text \<open>
  An instance of the collaborators that can be evaluated, and a store holding one account,
  to run the handlers on.
\<close>

definition demo_env :: collab where
  "demo_env =
     \<lparr>JWT_SECRET = ''s3cret'',
      newAccountValidation = (\<lambda>n e p. if n = [] then VMessage ''Name is required'' else VTrue),
      bcrypt_hash = (\<lambda>s rounds. ''$2a$'' @ s),
      bcrypt_compareSync = (\<lambda>s h. h = ''$2a$'' @ s),
      jwt_sign = (\<lambda>payload secret opts. secret @ ''.'' @ expiresIn opts),
      jwt_verify = (\<lambda>t secret. t = secret @ ''.1h''),
      new_id = (\<lambda>us. replicate (Suc (length us)) CHR ''a''),
      valid_id = (\<lambda>i. i \<noteq> [])\<rparr>"

definition alice :: UserAccount where
  "alice = \<lparr>doc_id = ''a'', doc_name = ''Alice'', doc_email = ''a@x.com'',
            doc_password = ''$2a$Secret123!''\<rparr>"

definition demo_sys :: sys where
  "demo_sys = \<lparr>users = [alice], console = []\<rparr>"

section \<open>Properties\<close>

subsection \<open>The branches of the handlers\<close>

lemma findOne_email: "findOne us e = Some u \<Longrightarrow> doc_email u = e \<and> u \<in> set us"
  unfolding findOne_def by (induction us) (auto split: if_splits)

lemma falsy_iff: "falsy v = (v = None \<or> v = Some [])"
  by (cases v) (simp_all add: falsy_def)

lemma loginUser_missing:
  "falsy (login_email body) \<or> falsy (login_password body) \<Longrightarrow>
   loginUser env body res s =
     (serverBadRequest res (JStr ''Email and password are required''), s)"
  by (simp add: loginUser_def serverProcess_def)

lemma loginUser_not_found:
  assumes "login_email body = Some e" "login_password body = Some p" "e \<noteq> []" "p \<noteq> []"
    and "findOne (users s) e = None"
  shows "loginUser env body res s = (serverNotFound res (JStr ''User not found''), s)"
  using assms by (simp add: loginUser_def serverProcess_def falsy_def)

lemma loginUser_incorrect:
  assumes "login_email body = Some e" "login_password body = Some p" "e \<noteq> []" "p \<noteq> []"
    and "findOne (users s) e = Some u" "\<not> bcrypt_compareSync env p (doc_password u)"
  shows "loginUser env body res s =
           (res_json (res_status res 401)
              (serverResponse False 401 (JStr ''Incorrect password'')), s)"
  using assms by (simp add: loginUser_def serverProcess_def falsy_def)

lemma loginUser_success:
  assumes "login_email body = Some e" "login_password body = Some p" "e \<noteq> []" "p \<noteq> []"
    and "findOne (users s) e = Some u" "bcrypt_compareSync env p (doc_password u)"
  shows "loginUser env body res s =
           (res_json
              (res_cookie (res_status res 200) ''access_token''
                 (jwt_sign env [(''email'', JStr (doc_email u))] (JWT_SECRET env)
                    \<lparr>expiresIn = ''1h''\<rparr>)
                 \<lparr>httpOnly = True\<rparr>)
              (serverResponse True 200
                 (JObj [(''user'', JObj (rest_without ''password'' (doc_of u)))])), s)"
  using assms by (simp add: loginUser_def serverProcess_def falsy_def)

text \<open>Every login takes one of the four branches.\<close>

lemma loginUser_cases:
  obtains
    (missing) "falsy (login_email body) \<or> falsy (login_password body)"
  | (not_found) e p where "login_email body = Some e" "login_password body = Some p"
      "e \<noteq> []" "p \<noteq> []" "findOne (users s) e = None"
  | (incorrect) e p u where "login_email body = Some e" "login_password body = Some p"
      "e \<noteq> []" "p \<noteq> []" "findOne (users s) e = Some u"
      "\<not> bcrypt_compareSync env p (doc_password u)"
  | (success) e p u where "login_email body = Some e" "login_password body = Some p"
      "e \<noteq> []" "p \<noteq> []" "findOne (users s) e = Some u"
      "bcrypt_compareSync env p (doc_password u)"
proof (cases "falsy (login_email body) \<or> falsy (login_password body)")
  case True
  then show ?thesis by (rule missing)
next
  case False
  then obtain e p where ep: "login_email body = Some e" "login_password body = Some p"
      "e \<noteq> []" "p \<noteq> []"
    by (auto simp: falsy_iff)
  show ?thesis
  proof (cases "findOne (users s) e")
    case None
    with ep show ?thesis by (rule not_found)
  next
    case (Some u)
    show ?thesis
    proof (cases "bcrypt_compareSync env p (doc_password u)")
      case True
      with ep Some show ?thesis by (rule success)
    next
      case False
      with ep Some show ?thesis by (rule incorrect)
    qed
  qed
qed

lemma createUser_invalid:
  "newAccountValidation env (body_name body) (body_email body) (body_password body) = VMessage msg \<Longrightarrow>
   createUser env body res s = (serverBadRequest res (JStr msg), s)"
  by (simp add: createUser_def serverProcess_def)

lemma createUser_duplicate:
  assumes "newAccountValidation env (body_name body) (body_email body) (body_password body) = VTrue"
    and "findOne (users s) (body_email body) = Some u"
  shows "createUser env body res s = (serverBadRequest res (JStr ''Email already exists''), s)"
  using assms by (simp add: createUser_def serverProcess_def)

lemma createUser_new:
  assumes "newAccountValidation env (body_name body) (body_email body) (body_password body) = VTrue"
    and "findOne (users s) (body_email body) = None"
  shows "createUser env body res s =
           (serverOk res JUndefined,
            save env (body_name body) (body_email body)
              (bcrypt_hash env (body_password body) 10) s)"
  using assms by (simp add: createUser_def serverProcess_def)

lemma isTokenOk_empty:
  "falsy (map_of cookies ''access_token'') \<Longrightarrow>
   isTokenOk env cookies res s = (serverBadRequest res (JStr ''Empty token!''), s)"
  by (simp add: isTokenOk_def serverProcess_def)

lemma isTokenOk_checked:
  assumes "map_of cookies ''access_token'' = Some t" "t \<noteq> []"
  shows "isTokenOk env cookies res s =
           (if jwt_verify env t (JWT_SECRET env)
            then serverOk res (JStr ''Token accepted'')
            else serverForbidden res (JStr ''Invalid or expired token''), s)"
  using assms by (simp add: isTokenOk_def serverProcess_def falsy_def)

lemmas helper_defs =
  serverOk_def serverBadRequest_def serverForbidden_def serverNotFound_def
  serverResponse_def res_json_def res_status_def res_cookie_def

lemmas demo_defs =
  demo_env_def demo_sys_def alice_def fresh_response_def findOne_def falsy_def


subsection \<open>Login\<close>

text \<open>
  C4. The failure branches of login are checked in order, and each one answers at once:
  an absent or empty email or password gives 400 "Email and password are required",
  whatever the store holds; otherwise no account with the email gives 404 "User not found";
  otherwise a password that does not match the stored hash gives 401 "Incorrect password",
  built with \<open>res_status\<close>, \<open>res_json\<close> and \<open>serverResponse\<close> directly. In each of the
  three the response is the incoming one with only the status and the body set (no cookie
  is added, so the handler went no further), and the state is returned as it was.
\<close>

theorem loginUser_failure_branches:
  "(falsy (login_email body) \<or> falsy (login_password body) \<longrightarrow>
      loginUser env body res s =
        (res\<lparr>statusCode := 400,
             sent := Some \<lparr>success = False, status = 400,
                            data = JStr ''Email and password are required''\<rparr>\<rparr>, s))
   \<and> (login_email body = Some e \<and> login_password body = Some p \<and> e \<noteq> [] \<and> p \<noteq> [] \<and>
        findOne (users s) e = None \<longrightarrow>
      loginUser env body res s =
        (res\<lparr>statusCode := 404,
             sent := Some \<lparr>success = False, status = 404, data = JStr ''User not found''\<rparr>\<rparr>, s))
   \<and> (login_email body = Some e \<and> login_password body = Some p \<and> e \<noteq> [] \<and> p \<noteq> [] \<and>
        findOne (users s) e = Some u \<and> \<not> bcrypt_compareSync env p (doc_password u) \<longrightarrow>
      loginUser env body res s =
        (res_json (res_status res 401) (serverResponse False 401 (JStr ''Incorrect password'')), s)
      \<and> fst (loginUser env body res s) =
          res\<lparr>statusCode := 401,
              sent := Some \<lparr>success = False, status = 401, data = JStr ''Incorrect password''\<rparr>\<rparr>)"
proof (intro conjI impI)
  assume "falsy (login_email body) \<or> falsy (login_password body)"
  then show "loginUser env body res s =
        (res\<lparr>statusCode := 400,
             sent := Some \<lparr>success = False, status = 400,
                            data = JStr ''Email and password are required''\<rparr>\<rparr>, s)"
    by (simp add: loginUser_missing helper_defs)
next
  assume "login_email body = Some e \<and> login_password body = Some p \<and> e \<noteq> [] \<and> p \<noteq> [] \<and>
        findOne (users s) e = None"
  then show "loginUser env body res s =
        (res\<lparr>statusCode := 404,
             sent := Some \<lparr>success = False, status = 404, data = JStr ''User not found''\<rparr>\<rparr>, s)"
    by (simp add: loginUser_not_found helper_defs)
next
  assume a: "login_email body = Some e \<and> login_password body = Some p \<and> e \<noteq> [] \<and> p \<noteq> [] \<and>
        findOne (users s) e = Some u \<and> \<not> bcrypt_compareSync env p (doc_password u)"
  then show "loginUser env body res s =
        (res_json (res_status res 401) (serverResponse False 401 (JStr ''Incorrect password'')), s)"
    by (simp add: loginUser_incorrect)
  from a show "fst (loginUser env body res s) =
          res\<lparr>statusCode := 401,
              sent := Some \<lparr>success = False, status = 401, data = JStr ''Incorrect password''\<rparr>\<rparr>"
    by (simp add: loginUser_incorrect helper_defs)
qed

theorem loginUser_failure_branches_witness:
  "falsy (login_password \<lparr>login_email = Some ''a@x.com'', login_password = None\<rparr>)
   \<and> loginUser demo_env \<lparr>login_email = Some ''a@x.com'', login_password = None\<rparr>
        fresh_response demo_sys =
       (\<lparr>statusCode = 400, set_cookies = [],
         sent = Some \<lparr>success = False, status = 400,
                       data = JStr ''Email and password are required''\<rparr>\<rparr>, demo_sys)
   \<and> findOne (users demo_sys) ''b@x.com'' = None
   \<and> loginUser demo_env \<lparr>login_email = Some ''b@x.com'', login_password = Some ''Secret123!''\<rparr>
        fresh_response demo_sys =
       (\<lparr>statusCode = 404, set_cookies = [],
         sent = Some \<lparr>success = False, status = 404, data = JStr ''User not found''\<rparr>\<rparr>,
        demo_sys)
   \<and> findOne (users demo_sys) ''a@x.com'' = Some alice
   \<and> \<not> bcrypt_compareSync demo_env ''wrong'' (doc_password alice)
   \<and> loginUser demo_env \<lparr>login_email = Some ''a@x.com'', login_password = Some ''wrong''\<rparr>
        fresh_response demo_sys =
       (\<lparr>statusCode = 401, set_cookies = [],
         sent = Some \<lparr>success = False, status = 401, data = JStr ''Incorrect password''\<rparr>\<rparr>,
        demo_sys)"
  using
    loginUser_failure_branches [of "\<lparr>login_email = Some ''a@x.com'', login_password = None\<rparr>"
      demo_env fresh_response demo_sys "''a@x.com''" "''x''" alice]
    loginUser_failure_branches [of
      "\<lparr>login_email = Some ''b@x.com'', login_password = Some ''Secret123!''\<rparr>"
      demo_env fresh_response demo_sys "''b@x.com''" "''Secret123!''" alice]
    loginUser_failure_branches [of
      "\<lparr>login_email = Some ''a@x.com'', login_password = Some ''wrong''\<rparr>"
      demo_env fresh_response demo_sys "''a@x.com''" "''wrong''" alice]
  by (simp add: demo_defs helper_defs)


text \<open>
  C5. A login with a non-empty email and password, an account with that email and a
  password that matches its stored hash answers with status 200 and a success envelope, and
  adds exactly one cookie: it is named \<^verbatim>\<open>access_token\<close>, it is http-only, and its value
  is the token signed from the payload \<^verbatim>\<open>{ email }\<close> holding the account's email (which is
  the email of the request), with the process-wide secret and the expiry \<^verbatim>\<open>1h\<close>.
\<close>

theorem loginUser_success_token:
  assumes "login_email body = Some e" "login_password body = Some p" "e \<noteq> []" "p \<noteq> []"
    and "findOne (users s) e = Some u" "bcrypt_compareSync env p (doc_password u)"
  shows "statusCode (fst (loginUser env body res s)) = 200
    \<and> set_cookies (fst (loginUser env body res s)) =
        set_cookies res @
          [(''access_token'',
            jwt_sign env [(''email'', JStr (doc_email u))] (JWT_SECRET env)
              \<lparr>expiresIn = ''1h''\<rparr>,
            \<lparr>httpOnly = True\<rparr>)]
    \<and> doc_email u = e
    \<and> (\<exists>payload. sent (fst (loginUser env body res s)) =
          Some \<lparr>success = True, status = 200, data = payload\<rparr>)"
proof -
  have "doc_email u = e"
    using assms(5) by (simp add: findOne_email)
  moreover have "loginUser env body res s =
           (res_json
              (res_cookie (res_status res 200) ''access_token''
                 (jwt_sign env [(''email'', JStr (doc_email u))] (JWT_SECRET env)
                    \<lparr>expiresIn = ''1h''\<rparr>)
                 \<lparr>httpOnly = True\<rparr>)
              (serverResponse True 200
                 (JObj [(''user'', JObj (rest_without ''password'' (doc_of u)))])), s)"
    using assms by (rule loginUser_success)
  ultimately show ?thesis
    by (simp add: helper_defs)
qed

theorem loginUser_success_token_witness:
  "findOne (users demo_sys) ''a@x.com'' = Some alice
   \<and> bcrypt_compareSync demo_env ''Secret123!'' (doc_password alice)
   \<and> statusCode (fst (loginUser demo_env
          \<lparr>login_email = Some ''a@x.com'', login_password = Some ''Secret123!''\<rparr>
          fresh_response demo_sys)) = 200
   \<and> set_cookies (fst (loginUser demo_env
          \<lparr>login_email = Some ''a@x.com'', login_password = Some ''Secret123!''\<rparr>
          fresh_response demo_sys)) =
        [(''access_token'', ''s3cret.1h'', \<lparr>httpOnly = True\<rparr>)]"
proof -
  have f: "findOne (users demo_sys) ''a@x.com'' = Some alice"
    by (simp add: demo_defs)
  have c: "bcrypt_compareSync demo_env ''Secret123!'' (doc_password alice)"
    by (simp add: demo_defs)
  have "login_email \<lparr>login_email = Some ''a@x.com'', login_password = Some ''Secret123!''\<rparr>
          = Some ''a@x.com''"
    and "login_password \<lparr>login_email = Some ''a@x.com'', login_password = Some ''Secret123!''\<rparr>
          = Some ''Secret123!''"
    and "''a@x.com'' \<noteq> []" and "''Secret123!'' \<noteq> []"
    by simp_all
  from loginUser_success_token [OF this f c, where res = fresh_response] f c
  show ?thesis
    by (simp add: demo_env_def alice_def fresh_response_def)
qed

text \<open>
  C9. Login returns the state it was given, whatever the request and the outcome: the
  persisted accounts (and the console) are unchanged. A response whose status is not 200
  carries the cookies of the incoming response, so a cookie is set on success only.
\<close>

theorem loginUser_no_write:
  "snd (loginUser env body res s) = s
   \<and> users (snd (loginUser env body res s)) = users s
   \<and> (statusCode (fst (loginUser env body res s)) \<noteq> 200 \<longrightarrow>
        set_cookies (fst (loginUser env body res s)) = set_cookies res)"
proof (cases rule: loginUser_cases [where body = body and s = s and env = env])
  case missing
  then show ?thesis by (simp add: loginUser_missing helper_defs)
next
  case (not_found e p)
  then show ?thesis by (simp add: loginUser_not_found helper_defs)
next
  case (incorrect e p u)
  then show ?thesis by (simp add: loginUser_incorrect helper_defs)
next
  case (success e p u)
  then show ?thesis by (simp add: loginUser_success helper_defs)
qed

theorem loginUser_no_write_witness:
  "statusCode (fst (loginUser demo_env
       \<lparr>login_email = Some ''a@x.com'', login_password = Some ''wrong''\<rparr>
       fresh_response demo_sys)) = 401
   \<and> set_cookies (fst (loginUser demo_env
       \<lparr>login_email = Some ''a@x.com'', login_password = Some ''wrong''\<rparr>
       fresh_response demo_sys)) = []
   \<and> users (snd (loginUser demo_env
       \<lparr>login_email = Some ''a@x.com'', login_password = Some ''wrong''\<rparr>
       fresh_response demo_sys)) = [alice]"
proof -
  have st: "statusCode (fst (loginUser demo_env
       \<lparr>login_email = Some ''a@x.com'', login_password = Some ''wrong''\<rparr>
       fresh_response demo_sys)) = 401"
    by (simp add: loginUser_def serverProcess_def demo_defs helper_defs)
  from loginUser_no_write [of demo_env
      "\<lparr>login_email = Some ''a@x.com'', login_password = Some ''wrong''\<rparr>"
      fresh_response demo_sys] st
  show ?thesis
    by (simp add: demo_sys_def fresh_response_def)
qed


subsection \<open>The password never leaves\<close>

lemma rest_without_removes: "map_of (rest_without k obj) k = None"
  unfolding rest_without_def by (induction obj) auto

lemma rest_without_keeps: "k' \<noteq> k \<Longrightarrow> map_of (rest_without k obj) k' = map_of obj k'"
  unfolding rest_without_def by (induction obj) auto

lemma rest_of_doc:
  "rest_without ''password'' (doc_of u) =
     [(''_id'', JStr (doc_id u)), (''name'', JStr (doc_name u)), (''email'', JStr (doc_email u))]"
  by (simp add: rest_without_def doc_of_def)

lemma createUser_message_only:
  "message_only (fst (createUser env body res s))"
proof (cases "newAccountValidation env (body_name body) (body_email body) (body_password body)")
  case VTrue
  show ?thesis
  proof (cases "findOne (users s) (body_email body)")
    case None
    with VTrue show ?thesis
      by (simp add: createUser_new message_only_def helper_defs)
  next
    case (Some u)
    with VTrue show ?thesis
      by (simp add: createUser_duplicate message_only_def helper_defs)
  qed
next
  case (VMessage msg)
  then show ?thesis
    by (simp add: createUser_invalid message_only_def helper_defs)
qed

lemma isTokenOk_message_only:
  "message_only (fst (isTokenOk env cookies res s))"
proof (cases "falsy (map_of cookies ''access_token'')")
  case True
  then show ?thesis
    by (simp add: isTokenOk_empty message_only_def helper_defs)
next
  case False
  then obtain t where "map_of cookies ''access_token'' = Some t" "t \<noteq> []"
    by (auto simp: falsy_iff)
  then show ?thesis
    by (simp add: isTokenOk_checked message_only_def helper_defs)
qed

lemma message_only_no_password: "message_only r \<Longrightarrow> \<not> body_has_password r"
  by (auto simp: message_only_def body_has_password_def split: option.splits jsval.splits)

lemma loginUser_no_password:
  "\<not> body_has_password (fst (loginUser env body res s))"
proof (cases rule: loginUser_cases [where body = body and s = s and env = env])
  case missing
  then show ?thesis by (simp add: loginUser_missing body_has_password_def helper_defs)
next
  case (not_found e p)
  then show ?thesis by (simp add: loginUser_not_found body_has_password_def helper_defs)
next
  case (incorrect e p u)
  then show ?thesis by (simp add: loginUser_incorrect body_has_password_def helper_defs)
next
  case (success e p u)
  then show ?thesis
    by (simp add: loginUser_success body_has_password_def helper_defs rest_of_doc)
qed

text \<open>
  C1. Whatever the request, the state and the collaborators, the body that register, login
  or verify sends has no property named \<^verbatim>\<open>password\<close> anywhere in its payload. A successful
  login sends the success envelope whose payload is \<^verbatim>\<open>{ user }\<close>, the user being the
  account's document with its \<^verbatim>\<open>password\<close> property removed and its other properties
  kept; register and verify send a message string or no payload, never an object.
\<close>

theorem no_password_in_response:
  "\<not> body_has_password (fst (createUser env rbody res s))
   \<and> \<not> body_has_password (fst (loginUser env lbody res s))
   \<and> \<not> body_has_password (fst (isTokenOk env cookies res s))
   \<and> (login_email lbody = Some e \<and> login_password lbody = Some p \<and> e \<noteq> [] \<and> p \<noteq> [] \<and>
        findOne (users s) e = Some u \<and> bcrypt_compareSync env p (doc_password u) \<longrightarrow>
        (\<exists>rest. sent (fst (loginUser env lbody res s)) =
             Some \<lparr>success = True, status = 200, data = JObj [(''user'', JObj rest)]\<rparr>
           \<and> map_of rest ''password'' = None
           \<and> (\<forall>k. k \<noteq> ''password'' \<longrightarrow> map_of rest k = map_of (doc_of u) k)
           \<and> rest = [(''_id'', JStr (doc_id u)), (''name'', JStr (doc_name u)),
                      (''email'', JStr (doc_email u))]))
   \<and> message_only (fst (createUser env rbody res s))
   \<and> message_only (fst (isTokenOk env cookies res s))"
proof (intro conjI impI)
  show "\<not> body_has_password (fst (createUser env rbody res s))"
    by (rule message_only_no_password) (rule createUser_message_only)
  show "\<not> body_has_password (fst (loginUser env lbody res s))"
    by (rule loginUser_no_password)
  show "\<not> body_has_password (fst (isTokenOk env cookies res s))"
    by (rule message_only_no_password) (rule isTokenOk_message_only)
  show "message_only (fst (createUser env rbody res s))"
    by (rule createUser_message_only)
  show "message_only (fst (isTokenOk env cookies res s))"
    by (rule isTokenOk_message_only)
next
  assume a: "login_email lbody = Some e \<and> login_password lbody = Some p \<and> e \<noteq> [] \<and> p \<noteq> [] \<and>
        findOne (users s) e = Some u \<and> bcrypt_compareSync env p (doc_password u)"
  let ?rest = "rest_without ''password'' (doc_of u)"
  from a have "sent (fst (loginUser env lbody res s)) =
      Some \<lparr>success = True, status = 200, data = JObj [(''user'', JObj ?rest)]\<rparr>"
    by (simp add: loginUser_success helper_defs)
  moreover have "map_of ?rest ''password'' = None"
    by (rule rest_without_removes)
  moreover have "\<forall>k. k \<noteq> ''password'' \<longrightarrow> map_of ?rest k = map_of (doc_of u) k"
    by (simp add: rest_without_keeps)
  moreover have "?rest = [(''_id'', JStr (doc_id u)), (''name'', JStr (doc_name u)),
                      (''email'', JStr (doc_email u))]"
    by (rule rest_of_doc)
  ultimately show "\<exists>rest. sent (fst (loginUser env lbody res s)) =
             Some \<lparr>success = True, status = 200, data = JObj [(''user'', JObj rest)]\<rparr>
           \<and> map_of rest ''password'' = None
           \<and> (\<forall>k. k \<noteq> ''password'' \<longrightarrow> map_of rest k = map_of (doc_of u) k)
           \<and> rest = [(''_id'', JStr (doc_id u)), (''name'', JStr (doc_name u)),
                      (''email'', JStr (doc_email u))]"
    by blast
qed

theorem no_password_in_response_witness:
  "findOne (users demo_sys) ''a@x.com'' = Some alice
   \<and> bcrypt_compareSync demo_env ''Secret123!'' (doc_password alice)
   \<and> map_of (doc_of alice) ''password'' = Some (JStr ''$2a$Secret123!'')
   \<and> sent (fst (loginUser demo_env
        \<lparr>login_email = Some ''a@x.com'', login_password = Some ''Secret123!''\<rparr>
        fresh_response demo_sys)) =
       Some \<lparr>success = True, status = 200,
              data = JObj [(''user'', JObj [(''_id'', JStr ''a''), (''name'', JStr ''Alice''),
                                            (''email'', JStr ''a@x.com'')])]\<rparr>
   \<and> \<not> body_has_password (fst (loginUser demo_env
        \<lparr>login_email = Some ''a@x.com'', login_password = Some ''Secret123!''\<rparr>
        fresh_response demo_sys))"
proof -
  have f: "findOne (users demo_sys) ''a@x.com'' = Some alice"
    by (simp add: demo_defs)
  have c: "bcrypt_compareSync demo_env ''Secret123!'' (doc_password alice)"
    by (simp add: demo_defs)
  have d: "map_of (doc_of alice) ''password'' = Some (JStr ''$2a$Secret123!'')"
    by (simp add: doc_of_def alice_def)
  from no_password_in_response [of demo_env _ fresh_response demo_sys
      "\<lparr>login_email = Some ''a@x.com'', login_password = Some ''Secret123!''\<rparr>" _
      "''a@x.com''" "''Secret123!''" alice] f c d
  show ?thesis
    by (auto simp: alice_def)
qed


subsection \<open>The token helper\<close>

text \<open>
  C2. \<open>validateClientToken\<close> throws the error "Empty Token" exactly when the token is
  absent or empty. For every other token it throws nothing and returns a boolean, which is
  whether the token verifies against the process-wide secret: every failure of the
  verification, of whatever kind, is the one result \<^verbatim>\<open>false\<close>.
\<close>

theorem validateClientToken_result:
  "(fst (validateClientToken env token s) = Inl (Error ''Empty Token''))
     = (token = None \<or> token = Some [])
   \<and> (token = Some t \<and> t \<noteq> [] \<longrightarrow>
        fst (validateClientToken env token s) = Inr (jwt_verify env t (JWT_SECRET env)))"
proof (cases token)
  case None
  then show ?thesis
    by (simp add: validateClientToken_def falsy_def Let_def)
next
  case (Some x)
  then show ?thesis
    by (cases "x = []") (simp_all add: validateClientToken_def falsy_def Let_def)
qed

theorem validateClientToken_result_witness:
  "fst (validateClientToken demo_env (Some ''s3cret.1h'') demo_sys) = Inr True
   \<and> fst (validateClientToken demo_env (Some ''not.a.token'') demo_sys) = Inr False
   \<and> fst (validateClientToken demo_env (Some []) demo_sys) = Inl (Error ''Empty Token'')
   \<and> fst (validateClientToken demo_env None demo_sys) = Inl (Error ''Empty Token'')"
  using
    validateClientToken_result [of demo_env "Some ''s3cret.1h''" demo_sys "''s3cret.1h''"]
    validateClientToken_result [of demo_env "Some ''not.a.token''" demo_sys "''not.a.token''"]
    validateClientToken_result [of demo_env "Some []" demo_sys "[]"]
    validateClientToken_result [of demo_env None demo_sys "[]"]
  by (simp add: demo_env_def)

text \<open>
  C10. Every call of \<open>validateClientToken\<close> appends the raw token to the console, whatever
  the token and the outcome: the call with an absent token and the call with an empty one
  both end in the error "Empty Token" with the token logged.
\<close>

theorem validateClientToken_logs:
  "console (snd (validateClientToken env token s)) = console s @ [token]
   \<and> validateClientToken env None s =
        (Inl (Error ''Empty Token''), s\<lparr>console := console s @ [None]\<rparr>)
   \<and> validateClientToken env (Some []) s =
        (Inl (Error ''Empty Token''), s\<lparr>console := console s @ [Some []]\<rparr>)"
  by (cases token) (simp_all add: validateClientToken_def falsy_def Let_def)

subsection \<open>Register\<close>

text \<open>
  C3, as the source has it. The validation comes first: a register request that passes it
  and whose email belongs to an account of the store is answered 400 "Email already
  exists", whatever its name and password, and nothing is stored. A request that fails the
  validation is answered 400 with the validation's message, whether or not its email is in
  use.
\<close>

theorem createUser_duplicate_email:
  "(newAccountValidation env n e p = VTrue \<and> findOne (users s) e = Some u \<longrightarrow>
      createUser env \<lparr>body_name = n, body_email = e, body_password = p\<rparr> res s =
        (res\<lparr>statusCode := 400,
             sent := Some \<lparr>success = False, status = 400,
                            data = JStr ''Email already exists''\<rparr>\<rparr>, s))
   \<and> (newAccountValidation env n e p = VMessage msg \<longrightarrow>
      createUser env \<lparr>body_name = n, body_email = e, body_password = p\<rparr> res s =
        (res\<lparr>statusCode := 400,
             sent := Some \<lparr>success = False, status = 400, data = JStr msg\<rparr>\<rparr>, s))"
  by (simp add: createUser_duplicate createUser_invalid helper_defs)

theorem createUser_duplicate_email_witness:
  "newAccountValidation demo_env ''Alice2'' ''a@x.com'' ''Other456!'' = VTrue
   \<and> findOne (users demo_sys) ''a@x.com'' = Some alice
   \<and> createUser demo_env
        \<lparr>body_name = ''Alice2'', body_email = ''a@x.com'', body_password = ''Other456!''\<rparr>
        fresh_response demo_sys =
       (\<lparr>statusCode = 400, set_cookies = [],
         sent = Some \<lparr>success = False, status = 400, data = JStr ''Email already exists''\<rparr>\<rparr>,
        demo_sys)"
  using createUser_duplicate_email [of demo_env "''Alice2''" "''a@x.com''" "''Other456!''"
      demo_sys alice fresh_response "[]"]
  by (simp add: demo_defs)

text \<open>
  The claim as written fails: the email of this request belongs to an account, but its name
  is one the validation rejects, and the answer is the validation's message.
\<close>

theorem createUser_duplicate_email_counterexample:
  "findOne (users demo_sys) ''a@x.com'' = Some alice
   \<and> sent (fst (createUser demo_env
        \<lparr>body_name = [], body_email = ''a@x.com'', body_password = ''Secret123!''\<rparr>
        fresh_response demo_sys)) =
       Some \<lparr>success = False, status = 400, data = JStr ''Name is required''\<rparr>
   \<and> sent (fst (createUser demo_env
        \<lparr>body_name = [], body_email = ''a@x.com'', body_password = ''Secret123!''\<rparr>
        fresh_response demo_sys)) \<noteq>
       Some \<lparr>success = False, status = 400, data = JStr ''Email already exists''\<rparr>"
  by (simp add: createUser_def serverProcess_def demo_defs helper_defs)

text \<open>
  C6. A register request that passes the validation and whose email no account has is
  answered 200 with the success envelope and no payload, and the store gains exactly one
  account, appended: it has the request's name and email, and its password field is what
  the hasher returns for the request's password and cost factor 10. The plaintext is not
  what is written: the field differs from it whenever the hash does.
\<close>

theorem createUser_persists_hash:
  assumes "newAccountValidation env n e p = VTrue" and "findOne (users s) e = None"
  shows "createUser env \<lparr>body_name = n, body_email = e, body_password = p\<rparr> res s =
           (res\<lparr>statusCode := 200,
                sent := Some \<lparr>success = True, status = 200, data = JUndefined\<rparr>\<rparr>,
            s\<lparr>users := users s @
                 [\<lparr>doc_id = new_id env (users s), doc_name = n, doc_email = e,
                   doc_password = bcrypt_hash env p 10\<rparr>]\<rparr>)
    \<and> (bcrypt_hash env p 10 \<noteq> p \<longrightarrow>
         doc_password (last (users (snd (createUser env
           \<lparr>body_name = n, body_email = e, body_password = p\<rparr> res s)))) \<noteq> p)"
  using assms by (simp add: createUser_new save_def helper_defs)

theorem createUser_persists_hash_witness:
  "newAccountValidation demo_env ''Bob'' ''b@x.com'' ''Other456!'' = VTrue
   \<and> findOne (users demo_sys) ''b@x.com'' = None
   \<and> createUser demo_env
        \<lparr>body_name = ''Bob'', body_email = ''b@x.com'', body_password = ''Other456!''\<rparr>
        fresh_response demo_sys =
       (\<lparr>statusCode = 200, set_cookies = [],
         sent = Some \<lparr>success = True, status = 200, data = JUndefined\<rparr>\<rparr>,
        \<lparr>users = [alice,
                  \<lparr>doc_id = ''aa'', doc_name = ''Bob'', doc_email = ''b@x.com'',
                    doc_password = ''$2a$Other456!''\<rparr>],
         console = []\<rparr>)
   \<and> bcrypt_hash demo_env ''Other456!'' 10 \<noteq> ''Other456!''
   \<and> doc_password (last (users (snd (createUser demo_env
        \<lparr>body_name = ''Bob'', body_email = ''b@x.com'', body_password = ''Other456!''\<rparr>
        fresh_response demo_sys)))) \<noteq> ''Other456!''"
proof -
  have v: "newAccountValidation demo_env ''Bob'' ''b@x.com'' ''Other456!'' = VTrue"
    by (simp add: demo_env_def)
  have f: "findOne (users demo_sys) ''b@x.com'' = None"
    by (simp add: demo_defs)
  from createUser_persists_hash [OF v f, where res = fresh_response] v f
  show ?thesis
    by (simp add: demo_env_def demo_sys_def fresh_response_def)
qed


subsection \<open>Verify\<close>

text \<open>
  C7, as the source has it. The guard \<^verbatim>\<open>!token\<close> holds of an absent cookie and of an
  empty one: both are answered 400 "Empty token!", without any verification. A non-empty
  cookie is verified against the process-wide secret: if that fails the answer is 403
  "Invalid or expired token", if it succeeds 200 "Token accepted". The state is returned
  as it was.
\<close>

theorem isTokenOk_outcomes:
  "(map_of cookies ''access_token'' = None \<or> map_of cookies ''access_token'' = Some [] \<longrightarrow>
      isTokenOk env cookies res s =
        (res\<lparr>statusCode := 400,
             sent := Some \<lparr>success = False, status = 400, data = JStr ''Empty token!''\<rparr>\<rparr>, s))
   \<and> (map_of cookies ''access_token'' = Some t \<and> t \<noteq> [] \<and>
        \<not> jwt_verify env t (JWT_SECRET env) \<longrightarrow>
      isTokenOk env cookies res s =
        (res\<lparr>statusCode := 403,
             sent := Some \<lparr>success = False, status = 403,
                            data = JStr ''Invalid or expired token''\<rparr>\<rparr>, s))
   \<and> (map_of cookies ''access_token'' = Some t \<and> t \<noteq> [] \<and>
        jwt_verify env t (JWT_SECRET env) \<longrightarrow>
      isTokenOk env cookies res s =
        (res\<lparr>statusCode := 200,
             sent := Some \<lparr>success = True, status = 200, data = JStr ''Token accepted''\<rparr>\<rparr>, s))"
proof (intro conjI impI)
  assume "map_of cookies ''access_token'' = None \<or> map_of cookies ''access_token'' = Some []"
  then have "falsy (map_of cookies ''access_token'')"
    by (simp add: falsy_iff)
  then show "isTokenOk env cookies res s =
        (res\<lparr>statusCode := 400,
             sent := Some \<lparr>success = False, status = 400, data = JStr ''Empty token!''\<rparr>\<rparr>, s)"
    by (simp add: isTokenOk_empty helper_defs)
next
  assume "map_of cookies ''access_token'' = Some t \<and> t \<noteq> [] \<and>
        \<not> jwt_verify env t (JWT_SECRET env)"
  then show "isTokenOk env cookies res s =
        (res\<lparr>statusCode := 403,
             sent := Some \<lparr>success = False, status = 403,
                            data = JStr ''Invalid or expired token''\<rparr>\<rparr>, s)"
    by (simp add: isTokenOk_checked helper_defs)
next
  assume "map_of cookies ''access_token'' = Some t \<and> t \<noteq> [] \<and>
        jwt_verify env t (JWT_SECRET env)"
  then show "isTokenOk env cookies res s =
        (res\<lparr>statusCode := 200,
             sent := Some \<lparr>success = True, status = 200, data = JStr ''Token accepted''\<rparr>\<rparr>, s)"
    by (simp add: isTokenOk_checked helper_defs)
qed

theorem isTokenOk_outcomes_witness:
  "isTokenOk demo_env [] fresh_response demo_sys =
       (\<lparr>statusCode = 400, set_cookies = [],
         sent = Some \<lparr>success = False, status = 400, data = JStr ''Empty token!''\<rparr>\<rparr>, demo_sys)
   \<and> \<not> jwt_verify demo_env ''forged'' (JWT_SECRET demo_env)
   \<and> isTokenOk demo_env [(''access_token'', ''forged'')] fresh_response demo_sys =
       (\<lparr>statusCode = 403, set_cookies = [],
         sent = Some \<lparr>success = False, status = 403,
                       data = JStr ''Invalid or expired token''\<rparr>\<rparr>, demo_sys)
   \<and> jwt_verify demo_env ''s3cret.1h'' (JWT_SECRET demo_env)
   \<and> isTokenOk demo_env [(''access_token'', ''s3cret.1h'')] fresh_response demo_sys =
       (\<lparr>statusCode = 200, set_cookies = [],
         sent = Some \<lparr>success = True, status = 200, data = JStr ''Token accepted''\<rparr>\<rparr>,
        demo_sys)"
  using
    isTokenOk_outcomes [of "[]" demo_env fresh_response demo_sys "[]"]
    isTokenOk_outcomes [of "[(''access_token'', ''forged'')]" demo_env fresh_response demo_sys
      "''forged''"]
    isTokenOk_outcomes [of "[(''access_token'', ''s3cret.1h'')]" demo_env fresh_response
      demo_sys "''s3cret.1h''"]
  by (simp add: demo_env_def fresh_response_def)

text \<open>
  The claim as written fails: a cookie that is there, with the empty value, does not
  verify, and is answered 400 "Empty token!", not 403.
\<close>

theorem isTokenOk_outcomes_counterexample:
  "map_of [(''access_token'', [])] ''access_token'' = Some []
   \<and> \<not> jwt_verify demo_env [] (JWT_SECRET demo_env)
   \<and> fst (isTokenOk demo_env [(''access_token'', [])] fresh_response demo_sys) =
       \<lparr>statusCode = 400, set_cookies = [],
        sent = Some \<lparr>success = False, status = 400, data = JStr ''Empty token!''\<rparr>\<rparr>
   \<and> statusCode (fst (isTokenOk demo_env [(''access_token'', [])] fresh_response demo_sys))
       \<noteq> 403"
  by (simp add: isTokenOk_def serverProcess_def demo_defs helper_defs)

subsection \<open>Lookup by identifier\<close>

text \<open>
  C8. For a well-formed identifier, \<open>isUserExist\<close> returns what the store's lookup
  returns and changes nothing: when an account of the store has the identifier, the result
  is such an account, the stored record itself with every field (the hashed password
  included); when none has, the result is the absent value, not an error.
\<close>

theorem isUserExist_lookup:
  assumes "valid_id env i"
  shows "snd (isUserExist env i s) = s
    \<and> ((\<exists>u \<in> set (users s). doc_id u = i) \<longrightarrow>
         (\<exists>u. fst (isUserExist env i s) = Inr (Some u) \<and> u \<in> set (users s) \<and> doc_id u = i
              \<and> map_of (doc_of u) ''password'' = Some (JStr (doc_password u))))
    \<and> ((\<forall>u \<in> set (users s). doc_id u \<noteq> i) \<longrightarrow> fst (isUserExist env i s) = Inr None)"
proof (intro conjI impI)
  show "snd (isUserExist env i s) = s"
    by (simp add: isUserExist_def)
next
  assume "\<exists>u \<in> set (users s). doc_id u = i"
  then obtain u where u: "find (\<lambda>u. doc_id u = i) (users s) = Some u"
    by (cases "find (\<lambda>u. doc_id u = i) (users s)") (auto simp: find_None_iff)
  then have "u \<in> set (users s)" "doc_id u = i"
    by (auto simp: find_Some_iff)
  moreover from u assms have "fst (isUserExist env i s) = Inr (Some u)"
    by (simp add: isUserExist_def findById_def)
  moreover have "map_of (doc_of u) ''password'' = Some (JStr (doc_password u))"
    by (simp add: doc_of_def)
  ultimately show "\<exists>u. fst (isUserExist env i s) = Inr (Some u) \<and> u \<in> set (users s)
      \<and> doc_id u = i \<and> map_of (doc_of u) ''password'' = Some (JStr (doc_password u))"
    by blast
next
  assume "\<forall>u \<in> set (users s). doc_id u \<noteq> i"
  then have "find (\<lambda>u. doc_id u = i) (users s) = None"
    by (simp add: find_None_iff)
  with assms show "fst (isUserExist env i s) = Inr None"
    by (simp add: isUserExist_def findById_def)
qed

theorem isUserExist_lookup_witness:
  "valid_id demo_env ''a'' \<and> valid_id demo_env ''zz''
   \<and> fst (isUserExist demo_env ''a'' demo_sys) = Inr (Some alice)
   \<and> doc_password alice = ''$2a$Secret123!''
   \<and> fst (isUserExist demo_env ''zz'' demo_sys) = Inr None"
proof -
  have v: "valid_id demo_env ''a''" "valid_id demo_env ''zz''"
    by (simp_all add: demo_env_def)
  from isUserExist_lookup [OF v(1), of demo_sys] isUserExist_lookup [OF v(2), of demo_sys] v
  show ?thesis
    by (auto simp: demo_sys_def alice_def)
qed

end
